theory Spec2Isabelle
  imports Complex_Main
begin

section \<open>The Lemolex Python client: values, exceptions, effects\<close>

text \<open>
  The development embeds \<^verbatim>\<open>examples/python-client.py\<close>: the class
  \<^verbatim>\<open>LemolexAPI\<close> with its request helper, the two payload builders
  (\<^verbatim>\<open>get_video_info\<close>, \<^verbatim>\<open>download_video\<close>) and the polling loop
  \<^verbatim>\<open>wait_for_completion\<close>.

  Python values that travel through the client (arguments, JSON bodies, payloads) are
  values of \<open>json\<close>; \<open>JNull\<close> is Python's \<^verbatim>\<open>None\<close>. A dict is an
  association list in insertion order, read with \<open>map_of\<close>. Numbers are integers;
  non-integral JSON numbers do not occur in what the client inspects.
\<close>

datatype json =
    JNull
  | JBool bool
  | JNum int
  | JStr string
  | JArr "json list"
  | JObj "(string \<times> json) list"

type_synonym dict = "(string \<times> json) list"

text \<open>Python's truth test, as used by \<^verbatim>\<open>if x:\<close> and \<^verbatim>\<open>not x\<close>.\<close>

fun truthy :: "json \<Rightarrow> bool" where
  "truthy JNull = False"
| "truthy (JBool b) = b"
| "truthy (JNum n) = (n \<noteq> 0)"
| "truthy (JStr s) = (s \<noteq> [])"
| "truthy (JArr xs) = (xs \<noteq> [])"
| "truthy (JObj d) = (d \<noteq> [])"

text \<open>
  Exceptions. \<open>Exception m\<close> is \<^verbatim>\<open>Exception(m)\<close>, the only class the client
  raises itself; \<open>OtherError c\<close> stands for an exception of any further class \<open>c\<close>
  (not a \<^verbatim>\<open>KeyboardInterrupt\<close>) that caller-supplied code may raise.
\<close>

datatype exn =
    Exception json
  | KeyError string
  | TypeError
  | AttributeError
  | KeyboardInterrupt
  | OtherError string

text \<open>\<^verbatim>\<open>d[k] = v\<close>: an existing key keeps its place, a new key goes last.\<close>

fun setitem :: "dict \<Rightarrow> string \<Rightarrow> json \<Rightarrow> dict" where
  "setitem [] k v = [(k, v)]"
| "setitem ((k', v') # d) k v = (if k' = k then (k, v) # d else (k', v') # setitem d k v)"

text \<open>\<^verbatim>\<open>x.get(k, default)\<close>: only a dict has the method.\<close>

fun py_get :: "json \<Rightarrow> string \<Rightarrow> json \<Rightarrow> exn + json" where
  "py_get (JObj d) k dflt = Inr (case map_of d k of Some v \<Rightarrow> v | None \<Rightarrow> dflt)"
| "py_get _ k dflt = Inl AttributeError"

text \<open>\<^verbatim>\<open>x[k]\<close> with a string key: a missing key raises KeyError, and no other
  JSON value can be subscripted by a string.\<close>

fun py_getitem :: "json \<Rightarrow> string \<Rightarrow> exn + json" where
  "py_getitem (JObj d) k = (case map_of d k of Some v \<Rightarrow> Inr v | None \<Rightarrow> Inl (KeyError k))"
| "py_getitem _ k = Inl TypeError"

text \<open>Decimal rendering of a status code inside an f-string.\<close>

fun str_nat :: "nat \<Rightarrow> string" where
  "str_nat n =
     (if n < 10 then [char_of (48 + n)]
      else str_nat (n div 10) @ [char_of (48 + n mod 10)])"

subsection \<open>Effects\<close>

text \<open>
  Everything the client does to the outside is recorded, in order, in a trace of events:
  an HTTP request (method, URL and the \<^verbatim>\<open>json=\<close> body if any), a call of the
  progress callback with its argument, a call of \<^verbatim>\<open>time.sleep\<close>. The trace is the
  state that the functions thread through. Console output is not modelled.
\<close>

datatype event =
    Http string string "json option"
  | Progress json
  | Sleep real

text \<open>
  What \<^verbatim>\<open>e.response\<close> of a \<^verbatim>\<open>RequestException\<close> offers: the status code, the
  text, and the body as \<^verbatim>\<open>.json()\<close> parses it (\<open>None\<close> when it raises
  \<^verbatim>\<open>JSONDecodeError\<close>).
\<close>

record http_response =
  status_code :: nat
  body_text :: string
  body_json :: "json option"

text \<open>
  The three library calls of \<^verbatim>\<open>_make_request\<close>'s \<^verbatim>\<open>try\<close> block
  (\<^verbatim>\<open>session.request\<close>, \<^verbatim>\<open>raise_for_status\<close>, \<^verbatim>\<open>response.json\<close>) have one
  of three outcomes: the parsed body; a \<^verbatim>\<open>RequestException\<close> \<open>e\<close>, given by
  \<^verbatim>\<open>str(e)\<close> and \<^verbatim>\<open>e.response\<close>; or an exception of another class, such as a
  \<^verbatim>\<open>KeyboardInterrupt\<close> delivered while the request is in flight.
\<close>

datatype http_result =
    Json json
  | RequestException string "http_response option"
  | Raises exn

text \<open>
  The outside world: the server behind \<^verbatim>\<open>base_url\<close> and the clock. Each answer
  may depend on everything that has happened so far, that is, on the trace.
  In \<open>sleep\<close>, \<open>None\<close> is a normal return and \<open>Some e\<close> an exception raised during
  the sleep.
\<close>

record env =
  base_url :: string
  http :: "event list \<Rightarrow> string \<Rightarrow> string \<Rightarrow> json option \<Rightarrow> http_result"
  sleep :: "event list \<Rightarrow> real \<Rightarrow> exn option"

text \<open>A progress callback: given the trace and its argument, it returns (\<open>None\<close>) or
  raises (\<open>Some e\<close>).\<close>

type_synonym sink = "event list \<Rightarrow> json \<Rightarrow> exn option"

section \<open>The request helper\<close>

text \<open>The \<^verbatim>\<open>except requests.exceptions.RequestException as e\<close> branch of
  \<^verbatim>\<open>_make_request\<close>: the exception it raises.\<close>

definition request_failed :: "string \<Rightarrow> http_response option \<Rightarrow> exn" where
  "request_failed str_e response =
     (case response of
        None \<Rightarrow> Exception (JStr str_e)
      | Some r \<Rightarrow>
          (case body_json r of
             None \<Rightarrow> Exception (JStr (''HTTP '' @ str_nat (status_code r) @ '': '' @ body_text r))
           | Some error_data \<Rightarrow>
               (case py_get error_data ''error'' (JStr str_e) of
                  Inl a \<Rightarrow> a
                | Inr m \<Rightarrow> Exception m)))"

text \<open>\<^verbatim>\<open>_make_request\<close>: the request is recorded, then its outcome decides between
  the \<^verbatim>\<open>return\<close> and the exception raised.\<close>

definition make_request ::
  "env \<Rightarrow> string \<Rightarrow> string \<Rightarrow> json option \<Rightarrow> event list \<Rightarrow> (exn + json) \<times> event list" where
  "make_request env method endpoint body trace =
     (let url = base_url env @ endpoint;
          trace' = trace @ [Http method url body]
      in case http env trace method url body of
           Json j \<Rightarrow> (Inr j, trace')
         | RequestException str_e response \<Rightarrow> (Inl (request_failed str_e response), trace')
         | Raises e \<Rightarrow> (Inl e, trace'))"

definition get_download_status :: "env \<Rightarrow> string \<Rightarrow> event list \<Rightarrow> (exn + json) \<times> event list" where
  "get_download_status env download_id trace =
     make_request env ''GET'' (''/download/'' @ download_id) None trace"

definition cancel_download :: "env \<Rightarrow> string \<Rightarrow> event list \<Rightarrow> (exn + json) \<times> event list" where
  "cancel_download env download_id trace =
     make_request env ''DELETE'' (''/download/'' @ download_id) None trace"

section \<open>Payload construction\<close>

text \<open>The dict \<^verbatim>\<open>data\<close> that \<^verbatim>\<open>get_video_info\<close> builds, statement by statement.\<close>

definition get_video_info_data :: "json \<Rightarrow> json \<Rightarrow> json \<Rightarrow> json \<Rightarrow> dict" where
  "get_video_info_data url cookies cookies_from_browser user_agent =
     (let data = [(''url'', url)];
          data = (if truthy cookies then setitem data ''cookies'' cookies else data);
          data = (if truthy cookies_from_browser
                  then setitem data ''cookiesFromBrowser'' cookies_from_browser else data);
          data = (if truthy user_agent then setitem data ''userAgent'' user_agent else data)
      in data)"

definition get_video_info ::
  "env \<Rightarrow> json \<Rightarrow> json \<Rightarrow> json \<Rightarrow> json \<Rightarrow> event list \<Rightarrow> (exn + json) \<times> event list" where
  "get_video_info env url cookies cookies_from_browser user_agent trace =
     make_request env ''POST'' ''/info''
       (Some (JObj (get_video_info_data url cookies cookies_from_browser user_agent))) trace"

text \<open>The dict \<^verbatim>\<open>data\<close> of \<^verbatim>\<open>download_video\<close>. The defaults of \<^verbatim>\<open>format\<close>
  and \<^verbatim>\<open>quality\<close> are filled in by the caller of this definition.\<close>

definition download_video_data ::
  "json \<Rightarrow> json \<Rightarrow> json \<Rightarrow> json \<Rightarrow> json \<Rightarrow> json \<Rightarrow> json \<Rightarrow> json \<Rightarrow> dict" where
  "download_video_data url format quality output_path filename cookies cookies_from_browser
       user_agent =
     (let data = [(''url'', url), (''format'', format), (''quality'', quality)];
          data = (if truthy output_path then setitem data ''outputPath'' output_path else data);
          data = (if truthy filename then setitem data ''filename'' filename else data);
          data = (if truthy cookies then setitem data ''cookies'' cookies else data);
          data = (if truthy cookies_from_browser
                  then setitem data ''cookiesFromBrowser'' cookies_from_browser else data);
          data = (if truthy user_agent then setitem data ''userAgent'' user_agent else data)
      in data)"

definition download_video ::
  "env \<Rightarrow> json \<Rightarrow> json \<Rightarrow> json \<Rightarrow> json \<Rightarrow> json \<Rightarrow> json \<Rightarrow> json \<Rightarrow> json \<Rightarrow> event list
     \<Rightarrow> (exn + json) \<times> event list" where
  "download_video env url format quality output_path filename cookies cookies_from_browser
       user_agent trace =
     make_request env ''POST'' ''/download''
       (Some (JObj (download_video_data url format quality output_path filename cookies
                      cookies_from_browser user_agent))) trace"

section \<open>The polling loop\<close>

text \<open>
  \<^verbatim>\<open>if not result.get('success'): raise Exception(result.get('error', 'Unknown error'))\<close>
  followed by \<^verbatim>\<open>download = result['data']\<close>.
\<close>

definition extract_download :: "json \<Rightarrow> exn + json" where
  "extract_download result =
     (case py_get result ''success'' JNull of
        Inl a \<Rightarrow> Inl a
      | Inr ok \<Rightarrow>
          if \<not> truthy ok then
            (case py_get result ''error'' (JStr ''Unknown error'') of
               Inl a \<Rightarrow> Inl a
             | Inr m \<Rightarrow> Inl (Exception m))
          else py_getitem result ''data'')"

text \<open>\<^verbatim>\<open>if on_progress: on_progress(download)\<close>. A callable is truthy.\<close>

definition call_progress :: "sink option \<Rightarrow> json \<Rightarrow> event list \<Rightarrow> exn option \<times> event list" where
  "call_progress on_progress download trace =
     (case on_progress of
        None \<Rightarrow> (None, trace)
      | Some f \<Rightarrow> (f trace download, trace @ [Progress download]))"

text \<open>
  The \<^verbatim>\<open>if\<close>/\<^verbatim>\<open>elif\<close> chain on \<^verbatim>\<open>download['status']\<close>: \<open>Inr (Some d)\<close> is
  \<^verbatim>\<open>return d\<close>, \<open>Inr None\<close> falls through to the sleep.
\<close>

definition check_finished :: "json \<Rightarrow> exn + json option" where
  "check_finished download =
     (case py_getitem download ''status'' of
        Inl a \<Rightarrow> Inl a
      | Inr status \<Rightarrow>
          if status = JStr ''completed'' then Inr (Some download)
          else if status = JStr ''failed'' then
            (case py_get download ''error'' (JStr ''Download failed'') of
               Inl a \<Rightarrow> Inl a
             | Inr m \<Rightarrow> Inl (Exception m))
          else if status = JStr ''cancelled'' then
            Inl (Exception (JStr ''Download was cancelled''))
          else Inr None)"

text \<open>The body of the \<^verbatim>\<open>try\<close> block, from the status query to the sleep.\<close>

definition try_body ::
  "env \<Rightarrow> string \<Rightarrow> sink option \<Rightarrow> real \<Rightarrow> event list \<Rightarrow> (exn + json option) \<times> event list" where
  "try_body env download_id on_progress check_interval trace =
     (case get_download_status env download_id trace of
        (Inl a, trace1) \<Rightarrow> (Inl a, trace1)
      | (Inr result, trace1) \<Rightarrow>
          (case extract_download result of
             Inl a \<Rightarrow> (Inl a, trace1)
           | Inr download \<Rightarrow>
               (case call_progress on_progress download trace1 of
                  (Some a, trace2) \<Rightarrow> (Inl a, trace2)
                | (None, trace2) \<Rightarrow>
                    (case check_finished download of
                       Inl a \<Rightarrow> (Inl a, trace2)
                     | Inr (Some d) \<Rightarrow> (Inr (Some d), trace2)
                     | Inr None \<Rightarrow>
                         (case sleep env trace2 check_interval of
                            Some a \<Rightarrow> (Inl a, trace2 @ [Sleep check_interval])
                          | None \<Rightarrow> (Inr None, trace2 @ [Sleep check_interval]))))))"

text \<open>
  One turn of \<^verbatim>\<open>while True\<close>: the \<^verbatim>\<open>try\<close> block with its handler
  \<^verbatim>\<open>except KeyboardInterrupt\<close>, which calls \<^verbatim>\<open>cancel_download\<close> under a bare
  \<^verbatim>\<open>except: pass\<close> and re-raises.
\<close>

definition loop_turn ::
  "env \<Rightarrow> string \<Rightarrow> sink option \<Rightarrow> real \<Rightarrow> event list \<Rightarrow> (exn + json option) \<times> event list" where
  "loop_turn env download_id on_progress check_interval trace =
     (case try_body env download_id on_progress check_interval trace of
        (Inl a, trace1) \<Rightarrow>
          if a = KeyboardInterrupt
          then (Inl a, snd (cancel_download env download_id trace1))
          else (Inl a, trace1)
      | (Inr r, trace1) \<Rightarrow> (Inr r, trace1))"

text \<open>
  \<^verbatim>\<open>wait_for_completion\<close>. The loop has no bound of its own, so the function is
  partial: \<open>None\<close> is a run that polls forever; \<open>Some (Inr d, trace)\<close> returns \<open>d\<close>
  and \<open>Some (Inl e, trace)\<close> raises \<open>e\<close>, each with the trace at that moment.
\<close>

partial_function (option) wait_for_completion ::
  "env \<Rightarrow> string \<Rightarrow> sink option \<Rightarrow> real \<Rightarrow> event list \<Rightarrow> ((exn + json) \<times> event list) option" where
  "wait_for_completion env download_id on_progress check_interval trace =
     (case loop_turn env download_id on_progress check_interval trace of
        (Inl a, trace1) \<Rightarrow> Some (Inl a, trace1)
      | (Inr (Some d), trace1) \<Rightarrow> Some (Inr d, trace1)
      | (Inr None, trace1) \<Rightarrow> wait_for_completion env download_id on_progress check_interval trace1)"


section \<open>Notions used in the statements\<close>

text \<open>The URL of \<^verbatim>\<open>get_download_status\<close> and \<^verbatim>\<open>cancel_download\<close>:
  \<^verbatim>\<open>f"{self.base_url}/download/{download_id}"\<close>.\<close>

definition download_url :: "env \<Rightarrow> string \<Rightarrow> string" where
  "download_url env download_id = base_url env @ ''/download/'' @ download_id"

text \<open>With the trace as it stands, the status query succeeds and the loop reads the
  record \<open>download\<close> out of its answer.\<close>

definition sampled :: "env \<Rightarrow> string \<Rightarrow> event list \<Rightarrow> json \<Rightarrow> bool" where
  "sampled env download_id trace download =
     (case http env trace ''GET'' (download_url env download_id) None of
        Json result \<Rightarrow> extract_download result = Inr download
      | _ \<Rightarrow> False)"

text \<open>The progress callback, if there is one, returns normally on this record.\<close>

definition sink_returns :: "sink option \<Rightarrow> event list \<Rightarrow> json \<Rightarrow> bool" where
  "sink_returns on_progress trace download =
     (case on_progress of None \<Rightarrow> True | Some f \<Rightarrow> f trace download = None)"

text \<open>The events of taking one sample: the status query, then the callback if there is
  one.\<close>

definition sample_events :: "env \<Rightarrow> string \<Rightarrow> sink option \<Rightarrow> json \<Rightarrow> event list" where
  "sample_events env download_id on_progress download =
     Http ''GET'' (download_url env download_id) None #
     (case on_progress of None \<Rightarrow> [] | Some f \<Rightarrow> [Progress download])"

text \<open>A status that none of the three branches of the \<^verbatim>\<open>if\<close>/\<^verbatim>\<open>elif\<close> chain
  takes.\<close>

definition pending_status :: "json \<Rightarrow> bool" where
  "pending_status status \<longleftrightarrow>
     status \<noteq> JStr ''completed'' \<and> status \<noteq> JStr ''failed'' \<and> status \<noteq> JStr ''cancelled''"

text \<open>The first \<open>n\<close> turns of the loop all reach the end of the \<^verbatim>\<open>try\<close> block and
  go round again; the result is the trace after them.\<close>

fun pending_turns ::
  "nat \<Rightarrow> env \<Rightarrow> string \<Rightarrow> sink option \<Rightarrow> real \<Rightarrow> event list \<Rightarrow> event list option" where
  "pending_turns 0 env download_id on_progress check_interval trace = Some trace"
| "pending_turns (Suc n) env download_id on_progress check_interval trace =
     (case loop_turn env download_id on_progress check_interval trace of
        (Inr None, trace1) \<Rightarrow> pending_turns n env download_id on_progress check_interval trace1
      | _ \<Rightarrow> None)"

text \<open>An option of the two payload builders counts as present when the caller passed
  anything but \<^verbatim>\<open>None\<close>.\<close>

definition present :: "json \<Rightarrow> bool" where
  "present v \<longleftrightarrow> v \<noteq> JNull"

subsection \<open>A scripted server and clock for concrete runs\<close>

fun count_http :: "event list \<Rightarrow> nat" where
  "count_http [] = 0"
| "count_http (Http m u b # es) = Suc (count_http es)"
| "count_http (e # es) = count_http es"

fun count_sleep :: "event list \<Rightarrow> nat" where
  "count_sleep [] = 0"
| "count_sleep (Sleep t # es) = Suc (count_sleep es)"
| "count_sleep (e # es) = count_sleep es"

text \<open>The \<open>k\<close>-th request is answered by the \<open>k\<close>-th entry of \<open>answers\<close>, and by
  \<open>final\<close> once they are used up; likewise the \<open>k\<close>-th sleep, which returns normally
  once \<open>sleeps\<close> is used up.\<close>

definition scripted :: "http_result list \<Rightarrow> http_result \<Rightarrow> exn option list \<Rightarrow> env" where
  "scripted answers final sleeps =
     \<lparr> base_url = ''http://localhost:3001/api'',
       http = (\<lambda>trace method url body.
                 if count_http trace < length answers then answers ! count_http trace else final),
       sleep = (\<lambda>trace t.
                 if count_sleep trace < length sleeps then sleeps ! count_sleep trace else None) \<rparr>"

text \<open>A progress callback that returns on every record, and one that raises \<open>e\<close> on
  every record.\<close>

definition returning_sink :: sink where
  "returning_sink trace download = None"

definition raising_sink :: "exn \<Rightarrow> sink" where
  "raising_sink e trace download = Some e"

text \<open>A job record and the body of a successful status answer that carries it.\<close>

definition job :: "string \<Rightarrow> int \<Rightarrow> json" where
  "job status progress =
     JObj [(''id'', JStr ''job-1''), (''status'', JStr status), (''progress'', JNum progress)]"


definition answer :: "json \<Rightarrow> http_result" where
  "answer download = Json (JObj [(''success'', JBool True), (''data'', download)])"

section \<open>Lemmas about one turn of the loop\<close>

lemma get_download_status_eq:
  "get_download_status env i tr =
     (case http env tr ''GET'' (download_url env i) None of
        Json j \<Rightarrow> Inr j
      | RequestException s r \<Rightarrow> Inl (request_failed s r)
      | Raises e \<Rightarrow> Inl e,
      tr @ [Http ''GET'' (download_url env i) None])"
  by (simp add: get_download_status_def make_request_def download_url_def Let_def
      split: http_result.split)

lemma cancel_download_trace:
  "snd (cancel_download env i tr) = tr @ [Http ''DELETE'' (download_url env i) None]"
  by (simp add: cancel_download_def make_request_def download_url_def Let_def
      split: http_result.split)

lemma py_get_not_interrupt: "py_get x k v \<noteq> Inl KeyboardInterrupt"
  by (cases x) simp_all

lemma py_getitem_not_interrupt: "py_getitem x k \<noteq> Inl KeyboardInterrupt"
  by (cases x) (simp_all split: option.split)

lemma request_failed_not_interrupt: "request_failed s r \<noteq> KeyboardInterrupt"
  using py_get_not_interrupt
  by (auto simp: request_failed_def split: option.split sum.split)

lemma extract_download_not_interrupt: "extract_download r \<noteq> Inl KeyboardInterrupt"
  using py_get_not_interrupt py_getitem_not_interrupt
  by (auto simp: extract_download_def split: sum.splits)

lemma check_finished_not_interrupt: "check_finished d \<noteq> Inl KeyboardInterrupt"
  using py_get_not_interrupt py_getitem_not_interrupt
  by (auto simp: check_finished_def split: sum.splits)

lemma try_body_sampled:
  assumes "sampled env i tr d"
  shows "try_body env i on_progress iv tr =
     (case call_progress on_progress d (tr @ [Http ''GET'' (download_url env i) None]) of
        (Some a, tr2) \<Rightarrow> (Inl a, tr2)
      | (None, tr2) \<Rightarrow>
          (case check_finished d of
             Inl a \<Rightarrow> (Inl a, tr2)
           | Inr (Some d') \<Rightarrow> (Inr (Some d'), tr2)
           | Inr None \<Rightarrow>
               (case sleep env tr2 iv of
                  Some a \<Rightarrow> (Inl a, tr2 @ [Sleep iv])
                | None \<Rightarrow> (Inr None, tr2 @ [Sleep iv]))))"
  using assms
  by (simp add: try_body_def get_download_status_eq sampled_def split: http_result.splits)

lemma call_progress_returns:
  "sink_returns on_progress (tr @ [Http ''GET'' (download_url env i) None]) d \<Longrightarrow>
   call_progress on_progress d (tr @ [Http ''GET'' (download_url env i) None]) =
     (None, tr @ sample_events env i on_progress d)"
  by (simp add: sink_returns_def call_progress_def sample_events_def split: option.splits)

lemma wait_pending_turns:
  "pending_turns n env i on_progress iv tr = Some tr' \<Longrightarrow>
   wait_for_completion env i on_progress iv tr = wait_for_completion env i on_progress iv tr'"
proof (induction n arbitrary: tr)
  case 0
  then show ?case by simp
next
  case (Suc n)
  then obtain tr1 where t: "loop_turn env i on_progress iv tr = (Inr None, tr1)"
    and p: "pending_turns n env i on_progress iv tr1 = Some tr'"
    by (auto split: prod.splits sum.splits option.splits)
  have "wait_for_completion env i on_progress iv tr = wait_for_completion env i on_progress iv tr1"
    by (subst wait_for_completion.simps) (simp add: t)
  with Suc.IH [OF p] show ?case by simp
qed

lemma check_finished_pending:
  "py_getitem d ''status'' = Inr st \<Longrightarrow> pending_status st \<Longrightarrow> check_finished d = Inr None"
  by (simp add: check_finished_def pending_status_def)




lemma try_body_sink_returns:
  assumes "sampled env i tr d"
    and "sink_returns on_progress (tr @ [Http ''GET'' (download_url env i) None]) d"
  shows "try_body env i on_progress iv tr =
     (case check_finished d of
        Inl a \<Rightarrow> (Inl a, tr @ sample_events env i on_progress d)
      | Inr (Some d') \<Rightarrow> (Inr (Some d'), tr @ sample_events env i on_progress d)
      | Inr None \<Rightarrow>
          (case sleep env (tr @ sample_events env i on_progress d) iv of
             Some a \<Rightarrow> (Inl a, tr @ sample_events env i on_progress d @ [Sleep iv])
           | None \<Rightarrow> (Inr None, tr @ sample_events env i on_progress d @ [Sleep iv])))"
  by (simp add: try_body_sampled [OF assms(1)] call_progress_returns [OF assms(2)]
      split: sum.split option.split)





lemma wait_sleep_raises:
  assumes "sampled env i tr d"
    and "sink_returns on_progress (tr @ [Http ''GET'' (download_url env i) None]) d"
    and "check_finished d = Inr None"
    and "sleep env (tr @ sample_events env i on_progress d) iv = Some a"
  shows "wait_for_completion env i on_progress iv tr =
     Some (Inl a, tr @ sample_events env i on_progress d @ Sleep iv #
       (if a = KeyboardInterrupt then [Http ''DELETE'' (download_url env i) None] else []))"
proof -
  have "loop_turn env i on_progress iv tr =
     (Inl a, tr @ sample_events env i on_progress d @ Sleep iv #
       (if a = KeyboardInterrupt then [Http ''DELETE'' (download_url env i) None] else []))"
    by (simp add: loop_turn_def try_body_sink_returns [OF assms(1,2)] assms(3,4)
        cancel_download_trace)
  then show ?thesis
    by (subst wait_for_completion.simps) simp
qed

lemma wait_sink_raises:
  assumes "sampled env i tr d"
    and "f (tr @ [Http ''GET'' (download_url env i) None]) d = Some a"
  shows "wait_for_completion env i (Some f) iv tr =
     Some (Inl a, tr @ [Http ''GET'' (download_url env i) None, Progress d] @
       (if a = KeyboardInterrupt then [Http ''DELETE'' (download_url env i) None] else []))"
proof -
  have "loop_turn env i (Some f) iv tr =
     (Inl a, tr @ [Http ''GET'' (download_url env i) None, Progress d] @
       (if a = KeyboardInterrupt then [Http ''DELETE'' (download_url env i) None] else []))"
    by (simp add: loop_turn_def try_body_sampled [OF assms(1)] call_progress_def assms(2)
        cancel_download_trace)
  then show ?thesis
    by (subst wait_for_completion.simps) simp
qed

lemma wait_query_raises:
  assumes "get_download_status env i tr = (Inl a, tr1)"
  shows "wait_for_completion env i on_progress iv tr =
     Some (Inl a, tr @ Http ''GET'' (download_url env i) None #
       (if a = KeyboardInterrupt then [Http ''DELETE'' (download_url env i) None] else []))"
proof -
  have tr1: "tr1 = tr @ [Http ''GET'' (download_url env i) None]"
    using assms by (simp add: get_download_status_eq)
  have "loop_turn env i on_progress iv tr =
     (Inl a, tr @ Http ''GET'' (download_url env i) None #
       (if a = KeyboardInterrupt then [Http ''DELETE'' (download_url env i) None] else []))"
    by (simp add: loop_turn_def try_body_def assms tr1 cancel_download_trace)
  then show ?thesis
    by (subst wait_for_completion.simps) simp
qed

section \<open>Lemmas about the scripted server\<close>

lemma returning_sink_None [simp]: "returning_sink tr d = None"
  by (simp add: returning_sink_def)

lemma raising_sink_Some [simp]: "raising_sink e tr d = Some e"
  by (simp add: raising_sink_def)

lemma sampled_scripted:
  "count_http tr < length answers \<Longrightarrow> answers ! count_http tr = answer d \<Longrightarrow>
   sampled (scripted answers final sleeps) i tr d"
  by (simp add: sampled_def scripted_def answer_def extract_download_def)



lemma status_job: "py_getitem (job s p) ''status'' = Inr (JStr s)"
  by (simp add: job_def)



lemma download_url_scripted:
  "download_url (scripted answers final sleeps) ''job-1'' =
     ''http://localhost:3001/api/download/job-1''"
  by (simp add: download_url_def scripted_def)

section \<open>Lemmas about the handler and the payloads\<close>

lemma try_body_interrupt_iff:
  "fst (try_body env i on_progress iv tr) = Inl KeyboardInterrupt \<longleftrightarrow>
     http env tr ''GET'' (download_url env i) None = Raises KeyboardInterrupt
   \<or> (\<exists>d f. on_progress = Some f \<and> sampled env i tr d
         \<and> f (tr @ [Http ''GET'' (download_url env i) None]) d = Some KeyboardInterrupt)
   \<or> (\<exists>d. sampled env i tr d
         \<and> sink_returns on_progress (tr @ [Http ''GET'' (download_url env i) None]) d
         \<and> check_finished d = Inr None
         \<and> sleep env (tr @ sample_events env i on_progress d) iv = Some KeyboardInterrupt)"
proof (cases "http env tr ''GET'' (download_url env i) None")
  case (Json result)
  show ?thesis
  proof (cases "extract_download result")
    case (Inl a)
    then show ?thesis
      using Json extract_download_not_interrupt [of result]
      by (auto simp: try_body_def get_download_status_eq sampled_def)
  next
    case (Inr d)
    then have s: "sampled env i tr d"
      by (simp add: sampled_def Json)
    have u: "\<And>d'. sampled env i tr d' \<longleftrightarrow> d' = d"
      using Inr by (auto simp: sampled_def Json)
    show ?thesis
      using check_finished_not_interrupt [of d]
      by (cases on_progress)
        (auto simp: try_body_sampled [OF s] u Json call_progress_def sink_returns_def
          sample_events_def split: option.splits sum.splits)
  qed
next
  case (RequestException s r)
  then show ?thesis
    using request_failed_not_interrupt [of s r]
    by (simp add: try_body_def get_download_status_eq sampled_def)
next
  case (Raises e)
  then show ?thesis
    by (simp add: try_body_def get_download_status_eq sampled_def)
qed

lemma loop_turn_handler:
  "(\<exists>t. loop_turn env i on_progress iv tr =
          (Inl KeyboardInterrupt, t @ [Http ''DELETE'' (download_url env i) None]))
     \<longleftrightarrow> fst (try_body env i on_progress iv tr) = Inl KeyboardInterrupt"
  by (cases "try_body env i on_progress iv tr")
    (auto simp: loop_turn_def cancel_download_trace split: sum.splits)

lemma map_of_setitem: "map_of (setitem d k v) = (map_of d)(k \<mapsto> v)"
  by (induction d k v rule: setitem.induct) auto

lemma map_of_if_setitem:
  "map_of (if c then setitem d k v else d) = map_of d ++ (if c then [k \<mapsto> v] else Map.empty)"
  by (simp add: map_of_setitem)

lemma map_of_mandatory:
  "map_of [(''url'', url)] = [''url'' \<mapsto> url]"
  "map_of [(''url'', url), (''format'', format), (''quality'', quality)] =
     [''url'' \<mapsto> url, ''format'' \<mapsto> format, ''quality'' \<mapsto> quality]"
  by (rule ext, simp)+

lemma make_request_trace:
  "snd (make_request env method endpoint body tr) =
     tr @ [Http method (base_url env @ endpoint) body]"
  by (simp add: make_request_def Let_def split: http_result.split)

lemma get_video_info_data_map:
  "map_of (get_video_info_data url cookies cookies_from_browser user_agent) =
     [''url'' \<mapsto> url]
       ++ (if truthy cookies then [''cookies'' \<mapsto> cookies] else Map.empty)
       ++ (if truthy cookies_from_browser
           then [''cookiesFromBrowser'' \<mapsto> cookies_from_browser] else Map.empty)
       ++ (if truthy user_agent then [''userAgent'' \<mapsto> user_agent] else Map.empty)"
  by (simp only: get_video_info_data_def Let_def map_of_if_setitem map_of_mandatory)

lemma download_video_data_map:
  "map_of (download_video_data url format quality output_path filename cookies
             cookies_from_browser user_agent) =
     [''url'' \<mapsto> url, ''format'' \<mapsto> format, ''quality'' \<mapsto> quality]
       ++ (if truthy output_path then [''outputPath'' \<mapsto> output_path] else Map.empty)
       ++ (if truthy filename then [''filename'' \<mapsto> filename] else Map.empty)
       ++ (if truthy cookies then [''cookies'' \<mapsto> cookies] else Map.empty)
       ++ (if truthy cookies_from_browser
           then [''cookiesFromBrowser'' \<mapsto> cookies_from_browser] else Map.empty)
       ++ (if truthy user_agent then [''userAgent'' \<mapsto> user_agent] else Map.empty)"
  by (simp only: download_video_data_def Let_def map_of_if_setitem map_of_mandatory)

section \<open>The polling loop: claims\<close>





text \<open>
  Claim C3. When the first status query fails with a \<^verbatim>\<open>RequestException\<close>, the
  call raises at once the exception that \<^verbatim>\<open>_make_request\<close> makes of it. The trace
  holds that one request and nothing else: the query is not repeated and the callback
  is not called.
\<close>

theorem transport_error_on_first_sample:
  assumes "http env tr ''GET'' (download_url env i) None = RequestException str_e response"
  shows "wait_for_completion env i on_progress iv tr =
     Some (Inl (request_failed str_e response), tr @ [Http ''GET'' (download_url env i) None])"
proof -
  have "get_download_status env i tr =
      (Inl (request_failed str_e response), tr @ [Http ''GET'' (download_url env i) None])"
    by (simp add: get_download_status_eq assms)
  from wait_query_raises [OF this] show ?thesis
    by (simp add: request_failed_not_interrupt)
qed

theorem transport_error_on_first_sample_witness:
  "wait_for_completion (scripted [] (RequestException ''Connection refused'' None) [])
     ''job-1'' (Some returning_sink) 1 [] =
   Some (Inl (Exception (JStr ''Connection refused'')),
     [Http ''GET'' ''http://localhost:3001/api/download/job-1'' None])"
  using transport_error_on_first_sample
    [of "scripted [] (RequestException ''Connection refused'' None) []" "[]" "''job-1''"
      "''Connection refused''" None "Some returning_sink" 1]
  by (simp add: download_url_scripted request_failed_def) (simp add: scripted_def)

text \<open>
  Claim C4. When a \<^verbatim>\<open>KeyboardInterrupt\<close> is raised during the sleep that follows
  a sample with a pending status, the call sends one \<^verbatim>\<open>DELETE\<close> request for the
  same download id and then raises \<^verbatim>\<open>KeyboardInterrupt\<close>. Nothing is assumed
  about the answer to the \<^verbatim>\<open>DELETE\<close> request, so this holds also when it fails;
  in the witness it fails with a \<^verbatim>\<open>RequestException\<close>.
\<close>

theorem interrupted_sleep_cancels_once_and_reraises:
  assumes "pending_turns n env i on_progress iv tr0 = Some tr"
    and "sampled env i tr d"
    and "sink_returns on_progress (tr @ [Http ''GET'' (download_url env i) None]) d"
    and "py_getitem d ''status'' = Inr status"
    and "pending_status status"
    and "sleep env (tr @ sample_events env i on_progress d) iv = Some KeyboardInterrupt"
  shows "wait_for_completion env i on_progress iv tr0 =
     Some (Inl KeyboardInterrupt,
           tr @ sample_events env i on_progress d @
             [Sleep iv, Http ''DELETE'' (download_url env i) None])"
  using wait_pending_turns [OF assms(1)]
    wait_sleep_raises [OF assms(2,3) check_finished_pending [OF assms(4,5)] assms(6)]
  by simp

theorem interrupted_sleep_cancels_once_and_reraises_witness:
  "wait_for_completion
     (scripted [answer (job ''downloading'' 30)] (RequestException ''Connection refused'' None)
        [Some KeyboardInterrupt])
     ''job-1'' None 1 [] =
   Some (Inl KeyboardInterrupt,
     [Http ''GET'' ''http://localhost:3001/api/download/job-1'' None, Sleep 1,
      Http ''DELETE'' ''http://localhost:3001/api/download/job-1'' None])
   \<and> http (scripted [answer (job ''downloading'' 30)] (RequestException ''Connection refused'' None)
        [Some KeyboardInterrupt])
       [Http ''GET'' ''http://localhost:3001/api/download/job-1'' None, Sleep 1]
       ''DELETE'' ''http://localhost:3001/api/download/job-1'' None =
     RequestException ''Connection refused'' None"
proof -
  let ?env = "scripted [answer (job ''downloading'' 30)]
       (RequestException ''Connection refused'' None) [Some KeyboardInterrupt]"
  have p: "pending_turns 0 ?env ''job-1'' None 1 [] = Some []"
    by simp
  have s: "sampled ?env ''job-1'' [] (job ''downloading'' 30)"
    by (simp add: sampled_scripted)
  have z: "sleep ?env ([] @ sample_events ?env ''job-1'' None (job ''downloading'' 30)) 1 =
      Some KeyboardInterrupt"
    by (simp add: scripted_def sample_events_def)
  have "wait_for_completion ?env ''job-1'' None 1 [] =
   Some (Inl KeyboardInterrupt,
     [Http ''GET'' ''http://localhost:3001/api/download/job-1'' None, Sleep 1,
      Http ''DELETE'' ''http://localhost:3001/api/download/job-1'' None])"
    using interrupted_sleep_cancels_once_and_reraises
      [OF p s _ status_job _ z]
    by (simp add: download_url_scripted sink_returns_def sample_events_def pending_status_def)
  moreover have "http ?env [Http ''GET'' ''http://localhost:3001/api/download/job-1'' None, Sleep 1]
       ''DELETE'' ''http://localhost:3001/api/download/job-1'' None =
     RequestException ''Connection refused'' None"
    by (simp add: scripted_def)
  ultimately show ?thesis by simp
qed

text \<open>
  Claim C5, as amended. The handler does not wait for the sleep. A turn of the loop ends
  in the handler, which sends the \<^verbatim>\<open>DELETE\<close> request and re-raises
  \<^verbatim>\<open>KeyboardInterrupt\<close>, exactly when a \<^verbatim>\<open>KeyboardInterrupt\<close> is raised in the
  \<^verbatim>\<open>try\<close> block at one of three places: during the status query, during the call of
  the progress callback, or during the sleep after a sample with a pending status.
  The counterexample to the claim as stated is a run whose first status query is
  interrupted: the \<^verbatim>\<open>DELETE\<close> request is sent and the interrupt re-raised, and
  the trace shows that no sleep has taken place.
\<close>

theorem interrupt_handled_in_query_sink_or_sleep:
  "(\<exists>t. loop_turn env i on_progress iv tr =
          (Inl KeyboardInterrupt, t @ [Http ''DELETE'' (download_url env i) None]))
     \<longleftrightarrow>
     http env tr ''GET'' (download_url env i) None = Raises KeyboardInterrupt
   \<or> (\<exists>d f. on_progress = Some f \<and> sampled env i tr d
         \<and> f (tr @ [Http ''GET'' (download_url env i) None]) d = Some KeyboardInterrupt)
   \<or> (\<exists>d. sampled env i tr d
         \<and> sink_returns on_progress (tr @ [Http ''GET'' (download_url env i) None]) d
         \<and> check_finished d = Inr None
         \<and> sleep env (tr @ sample_events env i on_progress d) iv = Some KeyboardInterrupt)"
  unfolding loop_turn_handler by (rule try_body_interrupt_iff)

theorem interrupt_handled_in_query_sink_or_sleep_witness:
  "\<exists>t. loop_turn (scripted [answer (job ''downloading'' 30)] (answer (job ''completed'' 100)) [])
         ''job-1'' (Some (raising_sink KeyboardInterrupt)) 1 [] =
       (Inl KeyboardInterrupt,
        t @ [Http ''DELETE'' ''http://localhost:3001/api/download/job-1'' None])"
proof -
  let ?env = "scripted [answer (job ''downloading'' 30)] (answer (job ''completed'' 100)) []"
  let ?f = "(raising_sink KeyboardInterrupt) :: sink"
  have s: "sampled ?env ''job-1'' [] (job ''downloading'' 30)"
    by (simp add: sampled_scripted)
  have "\<exists>d f. Some ?f = Some f \<and> sampled ?env ''job-1'' [] d
      \<and> f ([] @ [Http ''GET'' (download_url ?env ''job-1'') None]) d = Some KeyboardInterrupt"
    by (intro exI [of _ "job ''downloading'' 30"] exI [of _ ?f]) (simp add: s)
  then show ?thesis
    using interrupt_handled_in_query_sink_or_sleep [of ?env "''job-1''" "Some ?f" 1 "[]"]
    by (simp only: download_url_scripted) blast
qed

theorem interrupt_during_query_counterexample:
  "wait_for_completion (scripted [Raises KeyboardInterrupt] (answer (job ''completed'' 100)) [])
     ''job-1'' None 1 [] =
   Some (Inl KeyboardInterrupt,
     [Http ''GET'' ''http://localhost:3001/api/download/job-1'' None,
      Http ''DELETE'' ''http://localhost:3001/api/download/job-1'' None])"
proof -
  let ?env = "scripted [Raises KeyboardInterrupt] (answer (job ''completed'' 100)) []"
  have "get_download_status ?env ''job-1'' [] =
      (Inl KeyboardInterrupt, [Http ''GET'' ''http://localhost:3001/api/download/job-1'' None])"
    by (simp add: get_download_status_eq download_url_scripted) (simp add: scripted_def)
  from wait_query_raises [OF this] show ?thesis
    by (simp add: download_url_scripted)
qed



text \<open>
  Claim C7, as amended. An exception that the progress callback raises on a sample is
  the exception that the call raises, unchanged, and after the call of the callback the
  trace has no sleep and no status query. The exception is not caught on its way, with
  one exception: a \<^verbatim>\<open>KeyboardInterrupt\<close> raised by the callback is caught by the
  loop's handler, which sends one \<^verbatim>\<open>DELETE\<close> request for the download and then
  re-raises it. The counterexample to the claim as stated is such a callback.
\<close>

theorem sink_exception_propagates:
  assumes "pending_turns n env i (Some f) iv tr0 = Some tr"
    and "sampled env i tr d"
    and "f (tr @ [Http ''GET'' (download_url env i) None]) d = Some e"
  shows "wait_for_completion env i (Some f) iv tr0 =
     Some (Inl e,
           tr @ [Http ''GET'' (download_url env i) None, Progress d] @
             (if e = KeyboardInterrupt then [Http ''DELETE'' (download_url env i) None] else []))"
  using wait_pending_turns [OF assms(1)] wait_sink_raises [where f = f, OF assms(2,3)]
  by simp

theorem sink_exception_propagates_witness:
  "wait_for_completion
     (scripted [answer (job ''downloading'' 30)] (answer (job ''completed'' 100)) [])
     ''job-1'' (Some (raising_sink (OtherError ''ValueError''))) 1 [] =
   Some (Inl (OtherError ''ValueError''),
     [Http ''GET'' ''http://localhost:3001/api/download/job-1'' None,
      Progress (job ''downloading'' 30)])"
proof -
  let ?env = "scripted [answer (job ''downloading'' 30)] (answer (job ''completed'' 100)) []"
  let ?f = "(raising_sink (OtherError ''ValueError'')) :: sink"
  have p: "pending_turns 0 ?env ''job-1'' (Some ?f) 1 [] = Some []"
    by simp
  have s: "sampled ?env ''job-1'' [] (job ''downloading'' 30)"
    by (simp add: sampled_scripted)
  show ?thesis
    using sink_exception_propagates [OF p s, of "OtherError ''ValueError''"]
    by (simp add: download_url_scripted)
qed

theorem sink_interrupt_is_caught_counterexample:
  "wait_for_completion
     (scripted [answer (job ''downloading'' 30)] (answer (job ''completed'' 100)) [])
     ''job-1'' (Some (raising_sink KeyboardInterrupt)) 1 [] =
   Some (Inl KeyboardInterrupt,
     [Http ''GET'' ''http://localhost:3001/api/download/job-1'' None,
      Progress (job ''downloading'' 30),
      Http ''DELETE'' ''http://localhost:3001/api/download/job-1'' None])"
proof -
  let ?env = "scripted [answer (job ''downloading'' 30)] (answer (job ''completed'' 100)) []"
  have s: "sampled ?env ''job-1'' [] (job ''downloading'' 30)"
    by (simp add: sampled_scripted)
  show ?thesis
    using wait_sink_raises [where f = "raising_sink KeyboardInterrupt", OF s]
    by (simp add: download_url_scripted)
qed



section \<open>Payload construction: claims\<close>

text \<open>
  Claim C9, as amended. The payload of \<^verbatim>\<open>get_video_info\<close> holds \<open>url\<close>, that of
  \<^verbatim>\<open>download_video\<close> holds \<open>url\<close>, \<open>format\<close> and \<open>quality\<close>, and on top of these
  the key of an option is in the payload, with the option's value, if and only if that
  value is truthy; an option that is \<^verbatim>\<open>None\<close>, empty or otherwise falsy contributes
  no key. The statement is about the payload as a mapping from keys to values, whatever
  the order of insertion. The payload is the body of the one \<^verbatim>\<open>POST\<close> request that
  the function sends. The counterexample to the claim as stated is the option
  \<^verbatim>\<open>cookies=''\<close>: it is present, and the payload has no key \<open>cookies\<close>.
\<close>

theorem payload_holds_option_iff_truthy:
  "map_of (get_video_info_data url cookies cookies_from_browser user_agent) =
     [''url'' \<mapsto> url]
       ++ (if truthy cookies then [''cookies'' \<mapsto> cookies] else Map.empty)
       ++ (if truthy cookies_from_browser
           then [''cookiesFromBrowser'' \<mapsto> cookies_from_browser] else Map.empty)
       ++ (if truthy user_agent then [''userAgent'' \<mapsto> user_agent] else Map.empty)
   \<and> map_of (download_video_data url format quality output_path filename cookies
               cookies_from_browser user_agent) =
     [''url'' \<mapsto> url, ''format'' \<mapsto> format, ''quality'' \<mapsto> quality]
       ++ (if truthy output_path then [''outputPath'' \<mapsto> output_path] else Map.empty)
       ++ (if truthy filename then [''filename'' \<mapsto> filename] else Map.empty)
       ++ (if truthy cookies then [''cookies'' \<mapsto> cookies] else Map.empty)
       ++ (if truthy cookies_from_browser
           then [''cookiesFromBrowser'' \<mapsto> cookies_from_browser] else Map.empty)
       ++ (if truthy user_agent then [''userAgent'' \<mapsto> user_agent] else Map.empty)
   \<and> snd (get_video_info env url cookies cookies_from_browser user_agent tr) =
       tr @ [Http ''POST'' (base_url env @ ''/info'')
               (Some (JObj (get_video_info_data url cookies cookies_from_browser user_agent)))]
   \<and> snd (download_video env url format quality output_path filename cookies
            cookies_from_browser user_agent tr) =
       tr @ [Http ''POST'' (base_url env @ ''/download'')
               (Some (JObj (download_video_data url format quality output_path filename cookies
                              cookies_from_browser user_agent)))]"
proof (intro conjI)
  show "snd (get_video_info env url cookies cookies_from_browser user_agent tr) =
       tr @ [Http ''POST'' (base_url env @ ''/info'')
               (Some (JObj (get_video_info_data url cookies cookies_from_browser user_agent)))]"
    by (simp add: get_video_info_def make_request_trace)
  show "snd (download_video env url format quality output_path filename cookies
            cookies_from_browser user_agent tr) =
       tr @ [Http ''POST'' (base_url env @ ''/download'')
               (Some (JObj (download_video_data url format quality output_path filename cookies
                              cookies_from_browser user_agent)))]"
    by (simp add: download_video_def make_request_trace)
qed (rule get_video_info_data_map download_video_data_map)+

theorem empty_cookies_present_but_omitted_counterexample:
  "\<not> (''cookies'' \<in> dom (map_of (get_video_info_data (JStr ''https://example.com/v'')
                                   (JStr '''') JNull JNull))
        \<longleftrightarrow> present (JStr ''''))"
  by (simp add: get_video_info_data_def present_def dom_def)

text \<open>
  Claim C10. An option whose value is falsy (the empty string, \<^verbatim>\<open>None\<close>,
  \<^verbatim>\<open>False\<close>, \<open>0\<close>, an empty list or dict) has the effect of \<^verbatim>\<open>None\<close>: for each of
  the three options of \<^verbatim>\<open>get_video_info\<close> and the five of \<^verbatim>\<open>download_video\<close>,
  the call does what the call with \<^verbatim>\<open>None\<close> in that place does, and the payload has
  no entry under the option's key.
\<close>

theorem falsy_option_is_omitted:
  assumes "\<not> truthy v"
  shows "get_video_info env url v b u tr = get_video_info env url JNull b u tr
     \<and> get_video_info env url c v u tr = get_video_info env url c JNull u tr
     \<and> get_video_info env url c b v tr = get_video_info env url c b JNull tr
     \<and> download_video env url f q v n c b u tr = download_video env url f q JNull n c b u tr
     \<and> download_video env url f q p v c b u tr = download_video env url f q p JNull c b u tr
     \<and> download_video env url f q p n v b u tr = download_video env url f q p n JNull b u tr
     \<and> download_video env url f q p n c v u tr = download_video env url f q p n c JNull u tr
     \<and> download_video env url f q p n c b v tr = download_video env url f q p n c b JNull tr
     \<and> map_of (get_video_info_data url v b u) ''cookies'' = None
     \<and> map_of (get_video_info_data url c v u) ''cookiesFromBrowser'' = None
     \<and> map_of (get_video_info_data url c b v) ''userAgent'' = None
     \<and> map_of (download_video_data url f q v n c b u) ''outputPath'' = None
     \<and> map_of (download_video_data url f q p v c b u) ''filename'' = None
     \<and> map_of (download_video_data url f q p n v b u) ''cookies'' = None
     \<and> map_of (download_video_data url f q p n c v u) ''cookiesFromBrowser'' = None
     \<and> map_of (download_video_data url f q p n c b v) ''userAgent'' = None"
proof -
  have i: "get_video_info_data url v b u = get_video_info_data url JNull b u"
    "get_video_info_data url c v u = get_video_info_data url c JNull u"
    "get_video_info_data url c b v = get_video_info_data url c b JNull"
    using assms by (simp_all add: get_video_info_data_def)
  have d: "download_video_data url f q v n c b u = download_video_data url f q JNull n c b u"
    "download_video_data url f q p v c b u = download_video_data url f q p JNull c b u"
    "download_video_data url f q p n v b u = download_video_data url f q p n JNull b u"
    "download_video_data url f q p n c v u = download_video_data url f q p n c JNull u"
    "download_video_data url f q p n c b v = download_video_data url f q p n c b JNull"
    using assms by (simp_all add: download_video_data_def)
  have k: "map_of (get_video_info_data url v b u) ''cookies'' = None"
    "map_of (get_video_info_data url c v u) ''cookiesFromBrowser'' = None"
    "map_of (get_video_info_data url c b v) ''userAgent'' = None"
    using assms by (simp_all add: get_video_info_data_map map_add_def)
  have l: "map_of (download_video_data url f q v n c b u) ''outputPath'' = None"
    "map_of (download_video_data url f q p v c b u) ''filename'' = None"
    "map_of (download_video_data url f q p n v b u) ''cookies'' = None"
    "map_of (download_video_data url f q p n c v u) ''cookiesFromBrowser'' = None"
    "map_of (download_video_data url f q p n c b v) ''userAgent'' = None"
    using assms by (simp_all add: download_video_data_map map_add_def)
  show ?thesis
    using k l by (simp add: get_video_info_def download_video_def i d)
qed

theorem falsy_option_is_omitted_witness:
  "get_video_info (scripted [] (RequestException ''Connection refused'' None) [])
       (JStr ''https://example.com/v'') (JStr '''') JNull (JStr ''Mozilla/5.0'') [] =
     get_video_info (scripted [] (RequestException ''Connection refused'' None) [])
       (JStr ''https://example.com/v'') JNull JNull (JStr ''Mozilla/5.0'') []
   \<and> map_of (get_video_info_data (JStr ''https://example.com/v'') (JStr '''') JNull
               (JStr ''Mozilla/5.0'')) ''cookies'' = None
   \<and> map_of (download_video_data (JStr ''https://example.com/v'') (JStr ''video+audio'')
               (JStr ''best'') JNull (JStr '''') JNull JNull (JStr ''Mozilla/5.0''))
         ''filename'' = None"
  using falsy_option_is_omitted [where v = "JStr ''''"
      and env = "scripted [] (RequestException ''Connection refused'' None) []"
      and url = "JStr ''https://example.com/v''" and b = JNull and u = "JStr ''Mozilla/5.0''"
      and tr = "[]" and c = JNull and f = "JStr ''video+audio''" and q = "JStr ''best''"
      and p = JNull and n = JNull]
  by simp

end
